theory Spec2Isabelle
  imports Main "HOL-Library.Char_ord" "HOL-Library.List_Lexorder" "HOL-Library.Multiset"
begin

section \<open>Python values and exceptions\<close>

text \<open>
  The filter documents, bound parameters and template contexts of \<^verbatim>\<open>adbc/sql.py\<close> are
  untyped Python values.  Dictionaries keep their insertion order, which decides the
  order of the generated clauses and of the bound parameters, so a dictionary is an
  association list (keys are strings and, as in a Python dict, distinct).  Strings are
  \<^typ>\<open>string\<close>; floating point values are left out.
\<close>

datatype pyval =
    PNone
  | PBool bool
  | PInt int
  | PStr string
  | PList "pyval list"
  | PTuple "pyval list"
  | PDict "(string \<times> pyval) list"

text \<open>
  The exceptions the modelled code can raise.  \<open>InvalidIdentifier\<close> is the
  \<^verbatim>\<open>Exception('invalid identifier name: ...')\<close> of \<^verbatim>\<open>check_identifier\<close>,
  \<open>BadOperator\<close> the \<^verbatim>\<open>ValueError('bad operator: ...')\<close> of \<^verbatim>\<open>where_clause\<close>,
  \<open>AssertionError\<close> its \<^verbatim>\<open>assert operator_value\<close>; \<open>AttributeError\<close>, \<open>TypeError\<close> and
  \<open>IndexError\<close> are raised by the interpreter (a method missing on a value, a value that
  cannot be iterated, an index out of range), \<open>KeyError\<close> by a dictionary that lacks the
  key read, \<open>NotImplementedError\<close> by the abstract
  methods of \<^verbatim>\<open>Store\<close>, and \<open>QueryError\<close> stands for a failure of the external query
  execution.
\<close>

datatype error =
    InvalidIdentifier string
  | BadOperator string
  | AssertionError
  | AttributeError
  | TypeError
  | IndexError
  | KeyError
  | NotImplementedError
  | QueryError

text \<open>Python's \<^verbatim>\<open>bool(v)\<close>.\<close>

fun truthy :: "pyval \<Rightarrow> bool" where
  "truthy PNone = False"
| "truthy (PBool b) = b"
| "truthy (PInt i) = (i \<noteq> 0)"
| "truthy (PStr s) = (s \<noteq> [])"
| "truthy (PList xs) = (xs \<noteq> [])"
| "truthy (PTuple xs) = (xs \<noteq> [])"
| "truthy (PDict kv) = (kv \<noteq> [])"

text \<open>\<^verbatim>\<open>d.get(k)\<close>: the value stored under \<open>k\<close>, or \<^verbatim>\<open>None\<close>.\<close>

definition dict_get :: "(string \<times> pyval) list \<Rightarrow> string \<Rightarrow> pyval" where
  "dict_get kv k = (case map_of kv k of None \<Rightarrow> PNone | Some v \<Rightarrow> v)"

section \<open>Strings\<close>

text \<open>\<^verbatim>\<open>sep.join(xs)\<close>.\<close>

fun join :: "string \<Rightarrow> string list \<Rightarrow> string" where
  "join sep [] = []"
| "join sep [x] = x"
| "join sep (x # y # ys) = x @ sep @ join sep (y # ys)"

text \<open>Decimal digits of a natural number, and \<^verbatim>\<open>str(i)\<close> for an integer.\<close>

fun digits :: "nat \<Rightarrow> string" where
  "digits n =
     (if n < 10 then [''0123456789'' ! n]
      else digits (n div 10) @ [''0123456789'' ! (n mod 10)])"

declare digits.simps [simp del]

definition str_int :: "int \<Rightarrow> string" where
  "str_int i = (if i < 0 then CHR ''-'' # digits (nat (- i)) else digits (nat i))"

text \<open>
  \<^verbatim>\<open>s.replace(old, new)\<close> for a pattern \<open>old\<close> of one character, the only form
  \<^verbatim>\<open>escape_like\<close> uses: every occurrence of the character is replaced, left to right.
\<close>

definition replace :: "char \<Rightarrow> string \<Rightarrow> string \<Rightarrow> string" where
  "replace old new s = concat (map (\<lambda>c. if c = old then new else [c]) s)"

text \<open>\<^verbatim>\<open>s.upper()\<close> on ASCII letters.\<close>

definition upper_char :: "char \<Rightarrow> char" where
  "upper_char c =
     (case map_of (zip ''abcdefghijklmnopqrstuvwxyz'' ''ABCDEFGHIJKLMNOPQRSTUVWXYZ'') c of
        None \<Rightarrow> c | Some u \<Rightarrow> u)"

definition upper :: "string \<Rightarrow> string" where
  "upper s = map upper_char s"

text \<open>\<^verbatim>\<open>sub in s\<close> for strings.\<close>

fun contains :: "string \<Rightarrow> string \<Rightarrow> bool" where
  "contains sub [] = (sub = [])"
| "contains sub (c # cs) = (take (length sub) (c # cs) = sub \<or> contains sub cs)"

section \<open>Identifiers and quoting (\<^verbatim>\<open>adbc/sql.py\<close>)\<close>

text \<open>
  \<^verbatim>\<open>IDENTIFIER_REGEX = re.compile("^[a-zA-Z][-_a-zA-Z0-9$]*$")\<close>, used through
  \<^verbatim>\<open>IDENTIFIER_REGEX.match(ident)\<close>.  The pattern is a sequence of four items: the
  anchor \<^verbatim>\<open>^\<close>, one character of the first class, any number of characters of the second
  class, the anchor \<^verbatim>\<open>$\<close>.  \<open>matches r b s\<close> tells whether the items \<open>r\<close> match a prefix of
  \<open>s\<close>, where \<open>b\<close> says that \<open>s\<close> is the whole subject (position 0).  Without
  \<^verbatim>\<open>re.MULTILINE\<close>, \<^verbatim>\<open>^\<close> matches at position 0 only, and \<^verbatim>\<open>$\<close> matches at the end of the
  subject and also just before a newline that is its last character.
\<close>

datatype regex_item = Bol | Eol | One "char \<Rightarrow> bool" | Many "char \<Rightarrow> bool"

fun matches :: "regex_item list \<Rightarrow> bool \<Rightarrow> string \<Rightarrow> bool" where
  "matches [] b s = True"
| "matches (Bol # r) b s = (b \<and> matches r b s)"
| "matches (Eol # r) b s = ((s = [] \<or> s = [CHR 0x0A]) \<and> matches r b s)"
| "matches (One p # r) b [] = False"
| "matches (One p # r) b (c # s) = (p c \<and> matches r False s)"
| "matches (Many p # r) b [] = matches r b []"
| "matches (Many p # r) b (c # s) =
     ((p c \<and> matches (Many p # r) False s) \<or> matches r b (c # s))"

text \<open>A range \<^verbatim>\<open>lo-hi\<close> of a character class, by character code.\<close>

definition in_range :: "char \<Rightarrow> char \<Rightarrow> char \<Rightarrow> bool" where
  "in_range lo hi c \<longleftrightarrow> lo \<le> c \<and> c \<le> hi"

text \<open>The classes \<^verbatim>\<open>[a-zA-Z]\<close> and \<^verbatim>\<open>[-_a-zA-Z0-9$]\<close>.\<close>

definition ident_first :: "char \<Rightarrow> bool" where
  "ident_first c \<longleftrightarrow>
     in_range (CHR ''a'') (CHR ''z'') c \<or> in_range (CHR ''A'') (CHR ''Z'') c"

definition ident_rest :: "char \<Rightarrow> bool" where
  "ident_rest c \<longleftrightarrow>
     c = CHR ''-'' \<or> c = CHR ''_'' \<or> in_range (CHR ''a'') (CHR ''z'') c \<or>
     in_range (CHR ''A'') (CHR ''Z'') c \<or> in_range (CHR ''0'') (CHR ''9'') c \<or>
     c = CHR ''$''"

definition IDENTIFIER_REGEX :: "regex_item list" where
  "IDENTIFIER_REGEX = [Bol, One ident_first, Many ident_rest, Eol]"

text \<open>\<^verbatim>\<open>IDENTIFIER_REGEX.match(ident)\<close>, as a truth value.\<close>

definition IDENTIFIER_REGEX_match :: "string \<Rightarrow> bool" where
  "IDENTIFIER_REGEX_match ident = matches IDENTIFIER_REGEX True ident"

text \<open>
  The grammar as the specification reads it: a letter followed by characters of the
  second class, and nothing else.
\<close>

definition identifier_grammar :: "string \<Rightarrow> bool" where
  "identifier_grammar s =
     (case s of [] \<Rightarrow> False | c # cs \<Rightarrow> ident_first c \<and> list_all ident_rest cs)"

definition check_identifier :: "string \<Rightarrow> error + string" where
  "check_identifier ident =
     (if \<not> IDENTIFIER_REGEX_match ident then Inl (InvalidIdentifier ident)
      else Inr ident)"

definition quote :: "string \<Rightarrow> string" where
  "quote ident = [CHR 0x22] @ ident @ [CHR 0x22]"

definition parens :: "string \<Rightarrow> string" where
  "parens v = ''('' @ v @ '')''"

text \<open>
  \<^verbatim>\<open>format_table(table, schema=None, check=True)\<close>; a \<open>schema\<close> of \<^verbatim>\<open>None\<close> is \<open>None\<close>
  and the empty string is falsy like it.
\<close>

definition format_table :: "string \<Rightarrow> string option \<Rightarrow> bool \<Rightarrow> error + string" where
  "format_table table schema check =
     (let has_schema = (case schema of None \<Rightarrow> False | Some s \<Rightarrow> s \<noteq> []);
          formatted = (if has_schema then quote (the schema) @ ''.'' @ quote table
                       else quote table)
      in if check then
           (case check_identifier table of
              Inl e \<Rightarrow> Inl e
            | Inr _ \<Rightarrow>
                if has_schema then
                  (case check_identifier (the schema) of
                     Inl e \<Rightarrow> Inl e
                   | Inr _ \<Rightarrow> Inr formatted)
                else Inr formatted)
         else Inr formatted)"

text \<open>\<^verbatim>\<open>format_column(col, check=True, table=None, schema=None)\<close>.\<close>

definition format_column ::
  "string \<Rightarrow> bool \<Rightarrow> string option \<Rightarrow> string option \<Rightarrow> error + string" where
  "format_column col check table schema =
     (case (if check then check_identifier col else Inr col) of
        Inl e \<Rightarrow> Inl e
      | Inr _ \<Rightarrow>
          (case table of
             Some t \<Rightarrow>
               if t \<noteq> [] then
                 (case format_table t schema check of
                    Inl e \<Rightarrow> Inl e
                  | Inr ft \<Rightarrow> Inr (ft @ ''.'' @ quote col))
               else Inr (quote col)
           | None \<Rightarrow> Inr (quote col)))"

section \<open>Templates\<close>

text \<open>
  Modelled from the spec: \<^verbatim>\<open>resolve_template\<close> and \<^verbatim>\<open>get_context_variables\<close> are imported
  from \<^verbatim>\<open>adbc.template\<close>, which is not among the sources.  The specification describes
  templates with placeholders such as \<^verbatim>\<open>{{ field }}\<close> that are replaced by the
  context's value of that name (``\<^verbatim>\<open>starts.with\<close> \<open>\<rightarrow>\<close> \<^verbatim>\<open>value%\<close>'', ``determine which
  template placeholders are needed (\<^verbatim>\<open>field\<close>, \<^verbatim>\<open>value\<close>, \<^verbatim>\<open>not\<close>)'').  A template is
  read left to right: \<^verbatim>\<open>{{\<close> opens a placeholder, the next \<^verbatim>\<open>}}\<close> closes it, the name
  between them is stripped of blanks; every other character stands for itself.  An
  unclosed \<^verbatim>\<open>{{\<close> is kept as text (no template of the program has one).
\<close>

datatype piece = Lit char | Var string

definition strip :: "string \<Rightarrow> string" where
  "strip s = rev (dropWhile (\<lambda>c. c = CHR '' '') (rev (dropWhile (\<lambda>c. c = CHR '' '') s)))"

fun pieces :: "string option \<Rightarrow> string \<Rightarrow> piece list" where
  "pieces None (c # d # cs) =
     (if c = CHR ''{'' \<and> d = CHR ''{'' then pieces (Some []) cs
      else Lit c # pieces None (d # cs))"
| "pieces None cs = map Lit cs"
| "pieces (Some acc) (c # d # cs) =
     (if c = CHR ''}'' \<and> d = CHR ''}'' then Var (strip (rev acc)) # pieces None cs
      else pieces (Some (c # acc)) (d # cs))"
| "pieces (Some acc) cs = map Lit (''{{'' @ rev acc @ cs)"

text \<open>
  A value put into a template is rendered as \<^verbatim>\<open>str(v)\<close>.  Only strings are ever rendered
  by \<^verbatim>\<open>where_clause\<close>; for the other values the rendering is Python's, except that a
  string inside a container is shown in single quotes without escape sequences.
\<close>

fun py_repr :: "pyval \<Rightarrow> string" where
  "py_repr PNone = ''None''"
| "py_repr (PBool b) = (if b then ''True'' else ''False'')"
| "py_repr (PInt i) = str_int i"
| "py_repr (PStr s) = [CHR 0x27] @ s @ [CHR 0x27]"
| "py_repr (PList xs) = ''['' @ join '', '' (map py_repr xs) @ '']''"
| "py_repr (PTuple xs) =
     (if length xs = 1 then ''('' @ join '', '' (map py_repr xs) @ '',)''
      else ''('' @ join '', '' (map py_repr xs) @ '')'')"
| "py_repr (PDict kv) =
     ''{'' @ join '', '' (map (\<lambda>e. [CHR 0x27] @ fst e @ [CHR 0x27] @ '': '' @ py_repr (snd e)) kv)
       @ ''}''"

definition py_str :: "pyval \<Rightarrow> string" where
  "py_str v = (case v of PStr s \<Rightarrow> s | _ \<Rightarrow> py_repr v)"

type_synonym template_context = "string \<rightharpoonup> pyval"

definition render :: "template_context \<Rightarrow> piece \<Rightarrow> string" where
  "render context p =
     (case p of
        Lit c \<Rightarrow> [c]
      | Var n \<Rightarrow> (case context n of None \<Rightarrow> [] | Some v \<Rightarrow> py_str v))"

text \<open>
  Modelled from the spec: \<^verbatim>\<open>resolve_template(template, context)\<close> of \<^verbatim>\<open>adbc.template\<close>, which
  is not among the sources: every placeholder is replaced by the rendered value the
  context has under its name (by nothing when the name is missing).
\<close>

definition resolve_template :: "string \<Rightarrow> template_context \<Rightarrow> string" where
  "resolve_template template context = concat (map (render context) (pieces None template))"

text \<open>
  Modelled from the spec: \<^verbatim>\<open>get_context_variables(template)\<close> of \<^verbatim>\<open>adbc.template\<close>, which
  is not among the sources: the set of the names of the template's placeholders.
\<close>

definition get_context_variables :: "string \<Rightarrow> string set" where
  "get_context_variables template =
     set (concat (map (\<lambda>p. case p of Lit c \<Rightarrow> [] | Var n \<Rightarrow> [n]) (pieces None template)))"

section \<open>The operator registry (\<^verbatim>\<open>adbc/sql.py\<close>)\<close>

text \<open>
  A dictionary display keeps the last value of a repeated key (\<^verbatim>\<open>not.equal\<close> occurs
  twice in \<^verbatim>\<open>OPERATORS\<close>), hence the \<open>rev\<close>.
\<close>

definition dict_of :: "(string \<times> 'a) list \<Rightarrow> (string \<rightharpoonup> 'a)" where
  "dict_of items = map_of (rev items)"

definition OPERATORS_display :: "(string \<times> string) list" where
  \<open>OPERATORS_display =
    [(''equal'', ''"{{ field }}" = {{ value }}''),
     (''less'', ''"{{ field }}" < {{ value }}''),
     (''at.most'', ''"{{ field }}" <= {{ value }}''),
     (''greater'', ''"{{ field }}" > {{ value }}''),
     (''at.least'', ''"{{ field }}" >= {{ value }}''),
     (''like'', ''"{{ field }}" LIKE {{ value }}''),
     (''ilike'', ''"{{ field }}" ILIKE {{ value }}''),
     (''not.equal'', ''"{{ field }}" != {{ value }}''),
     (''is.null'', ''"{{ field }}" IS {{ not }}NULL''),
     (''starts.with'', ''"{{ field }}" LIKE {{ value }}''),
     (''istarts.with'', ''"{{ field }}" ILIKE {{ value }}''),
     (''iends.with'', ''"{{ field }}" ILIKE {{ value }}''),
     (''contains'', ''"{{ field }}" LIKE {{ value }}''),
     (''icontains'', ''"{{ field }}" ILIKE {{ value }}''),
     (''in'', ''"{{ field }}" IN {{ value }}''),
     (''not.equal'', ''"{{ field }}" != {{ value }}'')]\<close>

definition OPERATOR_TRANSLATE :: "string \<rightharpoonup> string" where
  "OPERATOR_TRANSLATE = dict_of
    [(''starts.with'', ''{{ value }}%''),
     (''istarts.with'', ''{{ value }}%''),
     (''ends.with'', ''%{{ value }}''),
     (''iends.with'', ''%{{ value }}''),
     (''contains'', ''%{{ value }}%''),
     (''icontains'', ''%{{ value }}%'')]"

text \<open>
  \<^verbatim>\<open>D[a] = D[b] = D[c] = D[k]\<close>: the value under \<open>k\<close> is read once and stored under each
  target, left to right.
\<close>

definition assign_all :: "string list \<Rightarrow> string \<Rightarrow> (string \<rightharpoonup> 'a) \<Rightarrow> (string \<rightharpoonup> 'a)" where
  "assign_all targets k d = fold (\<lambda>t m. m(t := d k)) targets d"

definition OPERATORS :: "string \<rightharpoonup> string" where
  "OPERATORS =
     (assign_all [''~~''] ''ilike''
      (assign_all [''~''] ''like''
      (assign_all [''less.equal'', ''<=''] ''at.most''
      (assign_all [''greater.equal'', ''>=''] ''at.least''
      (assign_all [''greater.than'', ''>''] ''greater''
      (assign_all [''less.than'', ''<''] ''less''
      (assign_all [''eq'', ''equals'', ''=''] ''equal''
      (assign_all [''ne'', ''!='', ''<>''] ''not.equal''
      (dict_of OPERATORS_display)))))))))"

text \<open>
  \<^verbatim>\<open>escape_like(like)\<close>: three \<^verbatim>\<open>replace\<close> calls in a row.  The method exists on strings
  only; any other value raises \<^verbatim>\<open>AttributeError\<close>.
\<close>

definition escape_like_str :: "string \<Rightarrow> string" where
  "escape_like_str like =
     (let like = replace (CHR 0x5C) [CHR 0x5C, CHR 0x5C] like;
          like = replace (CHR ''%'') [CHR 0x5C, CHR ''%''] like;
          like = replace (CHR ''_'') [CHR 0x5C, CHR ''_''] like
      in like)"

definition escape_like :: "pyval \<Rightarrow> error + pyval" where
  "escape_like like =
     (case like of PStr s \<Rightarrow> Inr (PStr (escape_like_str s)) | _ \<Rightarrow> Inl AttributeError)"

definition params_list :: "nat \<Rightarrow> nat \<Rightarrow> string list" where
  "params_list start num = map (\<lambda>i. ''$'' @ digits (start + i)) [0..<num]"

section \<open>The predicate compiler: \<^verbatim>\<open>where_clause\<close>\<close>

text \<open>
  \<^verbatim>\<open>where_clause(where, args)\<close> returns a string and extends the caller's list \<open>args\<close> in
  place.  The model passes the list in and returns it with the outcome, also when an
  exception is raised: the caller's list keeps what was appended before the failure.
\<close>

type_synonym 'a outcome = "(error + 'a) \<times> pyval list"

text \<open>
  Lines 193--201, the binding of one value: a list or tuple extends \<open>args\<close> and is
  replaced by the parenthesised placeholders numbered from \<^verbatim>\<open>len(args) + 1\<close> (the
  length before the extension); any other value is appended and replaced by the
  placeholder numbered \<^verbatim>\<open>len(args)\<close> (the length after the append).
\<close>

definition bind_value :: "pyval \<Rightarrow> pyval list \<Rightarrow> string \<times> pyval list" where
  "bind_value val args =
     (case val of
        PList xs \<Rightarrow>
          (let num_values = length xs;
               num_args = length args;
               args = args @ xs;
               params = params_list (num_args + 1) num_values
           in (''('' @ join '', '' params @ '')'', args))
      | PTuple xs \<Rightarrow>
          (let num_values = length xs;
               num_args = length args;
               args = args @ xs;
               params = params_list (num_args + 1) num_values
           in (''('' @ join '', '' params @ '')'', args))
      | _ \<Rightarrow>
          (let args = args @ [val]
           in (''$'' @ digits (length args), args)))"

text \<open>
  Lines 169--203, the body of the loop over the operators of one field.  The result is
  the clause with the context as the body leaves it (the context is created once per
  field and shared by the field's operators).  \<^verbatim>\<open>needs\<close> is a set of names and the loop
  over it acts on the name \<^verbatim>\<open>value\<close> only, so the loop is a membership test.
\<close>

definition where_operator ::
  "template_context \<Rightarrow> string \<Rightarrow> pyval \<Rightarrow> pyval list \<Rightarrow> (string \<times> template_context) outcome"
where
  "where_operator context operator val args =
     (case OPERATORS operator of
        None \<Rightarrow> (Inl (BadOperator operator), args)
      | Some template \<Rightarrow>
          if template = [] then (Inl (BadOperator operator), args)
          else
            let like = contains ''LIKE'' (upper template);
                needs = get_context_variables template
            in
              (case (if like then escape_like val else Inr val) of
                 Inl e \<Rightarrow> (Inl e, args)
               | Inr val \<Rightarrow>
                   let val =
                         (case OPERATOR_TRANSLATE operator of
                            None \<Rightarrow> val
                          | Some translate \<Rightarrow>
                              if translate = [] then val
                              else PStr (resolve_template translate [''value'' \<mapsto> val]));
                       context =
                         (if ''not'' \<in> needs
                          then context(''not'' \<mapsto> PStr (if truthy val then [] else ''NOT ''))
                          else context);
                       context = context(''value'' \<mapsto> val);
                       bound = bind_value val args;
                       context =
                         (if ''value'' \<in> needs then context(''value'' \<mapsto> PStr (fst bound))
                          else context);
                       args = (if ''value'' \<in> needs then snd bound else args)
                   in (Inr (resolve_template template context, context), args)))"

text \<open>Lines 167--203: the loop over \<^verbatim>\<open>operator_value.items()\<close>, collecting \<^verbatim>\<open>clause\<close>.\<close>

fun where_operators ::
  "template_context \<Rightarrow> (string \<times> pyval) list \<Rightarrow> pyval list \<Rightarrow> string list \<Rightarrow> string list outcome"
where
  "where_operators context [] args clause = (Inr clause, args)"
| "where_operators context ((operator, val) # rest) args clause =
     (case where_operator context operator val args of
        (Inl e, args) \<Rightarrow> (Inl e, args)
      | (Inr (c, context), args) \<Rightarrow> where_operators context rest args (clause @ [c]))"

text \<open>
  Lines 160--207, the body of the loop over the fields.  A dictionary of operators must
  not be empty (\<^verbatim>\<open>assert operator_value\<close>); any other value stands for
  \<^verbatim>\<open>{'equals': operator_value}\<close>.
\<close>

definition where_field :: "string \<Rightarrow> pyval \<Rightarrow> pyval list \<Rightarrow> string outcome" where
  "where_field field operator_value args =
     (let context = [''field'' \<mapsto> PStr field] in
      case (case operator_value of
              PDict ov \<Rightarrow> if ov = [] then Inl AssertionError else Inr ov
            | _ \<Rightarrow> Inr [(''equals'', operator_value)]) of
        Inl e \<Rightarrow> (Inl e, args)
      | Inr ov \<Rightarrow>
          (case where_operators context ov args [] of
             (Inl e, args) \<Rightarrow> (Inl e, args)
           | (Inr clause, args) \<Rightarrow>
               if length clause > 1 then (Inr (join '' AND '' (map parens clause)), args)
               else (case clause of
                       [] \<Rightarrow> (Inl IndexError, args)
                     | c # _ \<Rightarrow> (Inr c, args))))"

text \<open>Lines 158--215: the loop over \<^verbatim>\<open>where.items()\<close> and the final join.\<close>

fun where_fields ::
  "(string \<times> pyval) list \<Rightarrow> pyval list \<Rightarrow> string list \<Rightarrow> string outcome"
where
  "where_fields [] args clauses =
     (let num = length clauses in
      if num > 1 then (Inr (join '' AND '' (map parens clauses)), args)
      else if num \<noteq> 0 then (Inr (hd clauses), args)
      else (Inr [], args))"
| "where_fields ((field, operator_value) # rest) args clauses =
     (case where_field field operator_value args of
        (Inl e, args) \<Rightarrow> (Inl e, args)
      | (Inr c, args) \<Rightarrow> where_fields rest args (clauses @ [c]))"

text \<open>
  Lines 146--215.  \<^verbatim>\<open>where.get\<close> exists on dictionaries only.  The comprehension
  \<^verbatim>\<open>[parens(where_clause(a, args)) for a in ands]\<close> is \<open>where_clause_list\<close>; it runs over
  the elements of a list or tuple.  A truthy string or dictionary under a combinator
  key iterates over strings, and the first of them has no \<^verbatim>\<open>get\<close>
  (\<^verbatim>\<open>AttributeError\<close>, nothing bound yet); a number or \<^verbatim>\<open>True\<close> cannot be iterated
  (\<^verbatim>\<open>TypeError\<close>).
\<close>

definition iterate :: "pyval \<Rightarrow> error + pyval list" where
  "iterate v =
     (case v of
        PList xs \<Rightarrow> Inr xs
      | PTuple xs \<Rightarrow> Inr xs
      | PStr s \<Rightarrow> Inl AttributeError
      | PDict kv \<Rightarrow> Inl AttributeError
      | _ \<Rightarrow> Inl TypeError)"

function where_clause :: "pyval \<Rightarrow> pyval list \<Rightarrow> string outcome"
  and where_clause_list :: "pyval list \<Rightarrow> pyval list \<Rightarrow> string list outcome"
where
  "where_clause w args =
     (case w of
        PDict kv \<Rightarrow>
          let ands = dict_get kv ''.and'';
              ors = dict_get kv ''.or'';
              nots = dict_get kv ''.not''
          in
            if truthy ands then
              (case iterate ands of
                 Inl e \<Rightarrow> (Inl e, args)
               | Inr xs \<Rightarrow>
                   (case where_clause_list xs args of
                      (Inl e, args) \<Rightarrow> (Inl e, args)
                    | (Inr cs, args) \<Rightarrow> (Inr (join '' AND '' cs), args)))
            else if truthy ors then
              (case iterate ors of
                 Inl e \<Rightarrow> (Inl e, args)
               | Inr xs \<Rightarrow>
                   (case where_clause_list xs args of
                      (Inl e, args) \<Rightarrow> (Inl e, args)
                    | (Inr cs, args) \<Rightarrow> (Inr (join '' OR '' cs), args)))
            else if truthy nots then
              (case where_clause nots args of
                 (Inl e, args) \<Rightarrow> (Inl e, args)
               | (Inr c, args) \<Rightarrow> (Inr (''NOT ('' @ c @ '')''), args))
            else where_fields kv args []
      | _ \<Rightarrow> (Inl AttributeError, args))"
| "where_clause_list [] args = (Inr [], args)"
| "where_clause_list (a # as) args =
     (case where_clause a args of
        (Inl e, args) \<Rightarrow> (Inl e, args)
      | (Inr c, args) \<Rightarrow>
          (case where_clause_list as args of
             (Inl e, args) \<Rightarrow> (Inl e, args)
           | (Inr cs, args) \<Rightarrow> (Inr (parens c # cs), args)))"
  by pat_completeness auto

lemma size_map_of:
  "map_of kv k = Some v \<Longrightarrow> size v < Suc (size_list (size_prod (\<lambda>_. 0) size) kv)"
  by (induction kv) (auto split: if_splits)

lemma size_dict_get:
  "truthy (dict_get kv k) \<Longrightarrow>
   size (dict_get kv k) < Suc (size_list (size_prod (\<lambda>_. 0) size) kv)"
  by (auto simp: dict_get_def size_map_of split: option.splits)

lemma size_iterate: "iterate v = Inr xs \<Longrightarrow> size_list size xs < size v"
  by (auto simp: iterate_def split: pyval.splits)

termination where_clause
  apply (relation
      "measure (\<lambda>x. case x of Inl (w, _) \<Rightarrow> size w | Inr (ws, _) \<Rightarrow> size_list size ws)")
       apply simp
  subgoal for w args kv ands ors nots xs
    using size_dict_get[of kv "''.and''"] size_iterate[of ands xs] by simp
  subgoal for w args kv ands ors nots xs
    using size_dict_get[of kv "''.or''"] size_iterate[of ors xs] by simp
  subgoal for w args kv ands ors nots
    using size_dict_get[of kv "''.not''"] by simp
   apply simp
  apply simp
  done

declare where_clause.simps [simp del]

section \<open>Primary keys (\<^verbatim>\<open>adbc/sql.py\<close>, \<^verbatim>\<open>adbc/table.py\<close>)\<close>

text \<open>
  The descriptors are Python dictionaries; their keys are the ones the code reads
  (\<^verbatim>\<open>item["primary"]\<close>, \<^verbatim>\<open>item["columns"]\<close>, \<^verbatim>\<open>item["type"]\<close>, \<^verbatim>\<open>c["index_name"]\<close>,
  \<^verbatim>\<open>x["name"]\<close>, \<^verbatim>\<open>value["keys"]\<close>).  \<open>'c\<close> is what a column list holds.  The key
  \<^verbatim>\<open>index_name\<close> of a constraint is optional: \<open>None\<close> is a descriptor without the key,
  \<open>Some None\<close> one that has \<^verbatim>\<open>None\<close> under it, \<open>Some (Some n)\<close> one that names the index \<open>n\<close>.
\<close>

record 'c index =
  idx_name :: string
  idx_primary :: bool
  idx_keys :: "'c list"
  idx_columns :: "'c list"

record 'c constraint =
  con_name :: string
  con_type :: string
  con_columns :: "'c list"
  con_index_name :: "string option option"

record column =
  col_name :: string
  col_type :: string

text \<open>
  Modelled from the spec: \<^verbatim>\<open>get_first\<close> is imported from \<^verbatim>\<open>adbc.utils\<close>, which is not
  among the sources.  As \<^verbatim>\<open>get_pks\<close> uses it and the specification describes the result
  (``the columns of an index flagged primary, if one exists''), \<^verbatim>\<open>get_first(items, fn,
  key)\<close> is the entry \<open>key\<close> of the first item that satisfies \<open>fn\<close>, or \<^verbatim>\<open>None\<close>.
\<close>

definition get_first :: "'a list \<Rightarrow> ('a \<Rightarrow> bool) \<Rightarrow> ('a \<Rightarrow> 'b) \<Rightarrow> 'b option" where
  "get_first items fn key = map_option key (find fn items)"

text \<open>Truth value of \<^verbatim>\<open>pks\<close>: \<^verbatim>\<open>None\<close> and the empty list are falsy.\<close>

definition truthy_pks :: "'c list option \<Rightarrow> bool" where
  "truthy_pks pks = (case pks of None \<Rightarrow> False | Some ks \<Rightarrow> ks \<noteq> [])"

definition get_pks :: "'c index list \<Rightarrow> 'c constraint list \<Rightarrow> 'c list \<Rightarrow> 'c list" where
  "get_pks indexes constraints columns =
     (let pks = None;
          pks = (if indexes \<noteq> [] then get_first indexes idx_primary idx_columns else pks);
          pks = (if \<not> truthy_pks pks \<and> constraints \<noteq> []
                 then get_first constraints (\<lambda>item. con_type item = ''p'') con_columns
                 else pks)
      in case pks of
           None \<Rightarrow> columns
         | Some ks \<Rightarrow> if ks = [] then columns else ks)"

text \<open>\<^verbatim>\<open>get_by_name(l, name, key)\<close> of \<^verbatim>\<open>adbc/table.py\<close>; a descriptor found is truthy.\<close>

definition get_by_name :: "'c index list \<Rightarrow> string option \<Rightarrow> ('c index \<Rightarrow> 'b) \<Rightarrow> 'b option" where
  "get_by_name l name key =
     (case find (\<lambda>x. Some (idx_name x) = name) l of
        None \<Rightarrow> None
      | Some v \<Rightarrow> Some (key v))"

text \<open>
  The state of a \<^verbatim>\<open>Table\<close> after \<^verbatim>\<open>__init__\<close>.  The namespace is kept by its name (its
  \<^verbatim>\<open>database\<close>, the connection pool, is outside the model); \<open>tbl_pks\<close> is \<open>None\<close> for
  \<^verbatim>\<open>None\<close>.  The list arguments default to \<^verbatim>\<open>None\<close>, and \<^verbatim>\<open>x or []\<close> turns that into the
  empty list.  The generator behind \<^verbatim>\<open>next\<close> is advanced once: it reads
  \<^verbatim>\<open>c["index_name"]\<close> of the first constraint of type \<^verbatim>\<open>p\<close> in the sorted list, which
  raises \<^verbatim>\<open>KeyError\<close> when that constraint has no such key.
\<close>

record table =
  tbl_name :: string
  tbl_verbose :: bool
  tbl_namespace :: string
  tbl_attributes :: "column list"
  tbl_constraints :: "string constraint list"
  tbl_indexes :: "string index list"
  tbl_tag :: "string option"
  tbl_pks :: "string list option"

definition or_empty :: "'a list option \<Rightarrow> 'a list" where
  "or_empty x = (case x of None \<Rightarrow> [] | Some xs \<Rightarrow> xs)"

definition Table_init ::
  "string \<Rightarrow> string \<Rightarrow> column list option \<Rightarrow> string constraint list option \<Rightarrow>
   string index list option \<Rightarrow> bool \<Rightarrow> string option \<Rightarrow> error + table" where
  "Table_init name namespace attributes constraints indexes verbose tag =
     (let attributes = sort_key col_name (or_empty attributes);
          constraints = sort_key con_name (or_empty constraints);
          indexes = sort_key idx_name (or_empty indexes);
          pks = (case find (\<lambda>c. con_type c = ''p'') constraints of
                   None \<Rightarrow> Inr None
                 | Some c \<Rightarrow>
                     (case con_index_name c of
                        None \<Rightarrow> Inl KeyError
                      | Some index_name \<Rightarrow> Inr (get_by_name indexes index_name idx_keys)))
      in case pks of
           Inl e \<Rightarrow> Inl e
         | Inr pks \<Rightarrow>
             Inr \<lparr> tbl_name = name, tbl_verbose = verbose, tbl_namespace = namespace,
                   tbl_attributes = attributes, tbl_constraints = constraints,
                   tbl_indexes = indexes, tbl_tag = tag, tbl_pks = pks \<rparr>)"

text \<open>
  \<^verbatim>\<open>Table.get_data_hash_query\<close>: the comprehension iterates over \<^verbatim>\<open>self.pks\<close>, which
  raises \<^verbatim>\<open>TypeError\<close> on \<^verbatim>\<open>None\<close>.
\<close>

definition get_data_hash_query :: "table \<Rightarrow> error + string list" where
  "get_data_hash_query t =
     (case tbl_pks t of
        None \<Rightarrow> Inl TypeError
      | Some ks \<Rightarrow>
          Inr [''SELECT md5(array_agg(md5((t.*)::varchar))::varchar)'' @
               ''FROM (SELECT * FROM '' @ tbl_namespace t @ ''.'' @ tbl_name t @
               '' ORDER BY '' @ join '', '' (map quote ks) @ '') AS t''])"

section \<open>Stores with children (\<^verbatim>\<open>apg/store.py\<close>)\<close>

text \<open>
  A store is either a leaf, whose \<^verbatim>\<open>get_count\<close>, \<^verbatim>\<open>get_data_hash\<close> and
  \<^verbatim>\<open>get_schema_hash\<close> are answered outside this module (a table asks the database; a
  method left abstract raises \<^verbatim>\<open>NotImplementedError\<close>), or a \<^verbatim>\<open>ParentStore\<close> with the
  children that \<^verbatim>\<open>get_children\<close> returns.  \<open>'h\<close> is the type of hash values.
\<close>

datatype 'h store =
    Leaf string "error + int" "error + 'h" "error + 'h"
  | ParentStore string "'h store list"

fun store_name :: "'h store \<Rightarrow> string" where
  "store_name (Leaf n c d s) = n"
| "store_name (ParentStore n cs) = n"

text \<open>
  \<^verbatim>\<open>[await c for c in s]\<close>: the coroutines are awaited one after the other in list
  order; the first exception ends the comprehension.
\<close>

fun gather :: "(error + 'a) list \<Rightarrow> error + 'a list" where
  "gather [] = Inr []"
| "gather (r # rs) =
     (case r of
        Inl e \<Rightarrow> Inl e
      | Inr x \<Rightarrow> (case gather rs of Inl e \<Rightarrow> Inl e | Inr xs \<Rightarrow> Inr (x # xs)))"

fun get_count :: "'h store \<Rightarrow> error + int" where
  "get_count (Leaf n c d s) = c"
| "get_count (ParentStore n cs) =
     (case gather (map get_count cs) of
        Inl e \<Rightarrow> Inl e
      | Inr counts \<Rightarrow> Inr (sum_list counts))"

text \<open>
  \<^verbatim>\<open>"-".format(h, name)\<close>: the format string has no replacement field, so the result is
  the string \<^verbatim>\<open>-\<close> whatever the two arguments are.
\<close>

definition dash_format :: "'h \<Rightarrow> string \<Rightarrow> string" where
  "dash_format h name = ''-''"

text \<open>
  \<^verbatim>\<open>hashlib.md5\<close> is a parameter: an external function from the joined string to a hash
  value or an exception (Python 3 raises \<^verbatim>\<open>TypeError\<close> for every \<^verbatim>\<open>str\<close> argument).
\<close>

fun get_data_hash :: "(string \<Rightarrow> error + 'h) \<Rightarrow> 'h store \<Rightarrow> error + 'h" where
  "get_data_hash md5 (Leaf n c d s) = d"
| "get_data_hash md5 (ParentStore n cs) =
     (case gather (map (\<lambda>c. case get_data_hash md5 c of
                               Inl e \<Rightarrow> Inl e
                             | Inr h \<Rightarrow> Inr (dash_format h (store_name c))) cs) of
        Inl e \<Rightarrow> Inl e
      | Inr parts \<Rightarrow> md5 (join '','' parts))"

fun get_schema_hash :: "(string \<Rightarrow> error + 'h) \<Rightarrow> 'h store \<Rightarrow> error + 'h" where
  "get_schema_hash md5 (Leaf n c d s) = s"
| "get_schema_hash md5 (ParentStore n cs) =
     (case gather (map (\<lambda>c. case get_schema_hash md5 c of
                               Inl e \<Rightarrow> Inl e
                             | Inr h \<Rightarrow> Inr (dash_format h (store_name c))) cs) of
        Inl e \<Rightarrow> Inl e
      | Inr parts \<Rightarrow> md5 (join '','' parts))"

text \<open>The answers of all leaves below a store, left to right.\<close>

fun leaf_counts :: "'h store \<Rightarrow> (error + int) list" where
  "leaf_counts (Leaf n c d s) = [c]"
| "leaf_counts (ParentStore n cs) = concat (map leaf_counts cs)"

section \<open>The specification's wording\<close>






section \<open>Properties of the identifier check\<close>

lemma ident_newline: "\<not> ident_first (CHR 0x0A)" "\<not> ident_rest (CHR 0x0A)"
  by (simp_all add: ident_first_def ident_rest_def in_range_def)

lemma matches_many_eol:
  "\<not> p (CHR 0x0A) \<Longrightarrow>
   matches [Many p, Eol] b s \<longleftrightarrow>
     list_all p s \<or> (s \<noteq> [] \<and> last s = CHR 0x0A \<and> list_all p (butlast s))"
  by (induction s arbitrary: b) auto

text \<open>
  The match succeeds exactly on a letter followed by characters of the second class
  and, possibly, one final newline.
\<close>

lemma IDENTIFIER_REGEX_match_unfold:
  "IDENTIFIER_REGEX_match s =
     (case s of
        [] \<Rightarrow> False
      | c # cs \<Rightarrow>
          ident_first c \<and>
          (list_all ident_rest cs \<or>
           (cs \<noteq> [] \<and> last cs = CHR 0x0A \<and> list_all ident_rest (butlast cs))))"
  by (cases s)
    (simp_all add: IDENTIFIER_REGEX_match_def IDENTIFIER_REGEX_def
      matches_many_eol[of ident_rest] ident_newline)

lemma grammar_imp_match: "identifier_grammar s \<Longrightarrow> IDENTIFIER_REGEX_match s"
  by (auto simp: identifier_grammar_def IDENTIFIER_REGEX_match_unfold split: list.splits)

lemma check_identifier_grammar:
  "identifier_grammar s \<Longrightarrow> check_identifier s = Inr s"
  by (simp add: check_identifier_def grammar_imp_match)


lemma check_identifier_result:
  "check_identifier s = (if IDENTIFIER_REGEX_match s then Inr s else Inl (InvalidIdentifier s))"
  by (simp add: check_identifier_def)

lemma match_iff_grammar_or_newline:
  "IDENTIFIER_REGEX_match s \<longleftrightarrow>
     identifier_grammar s \<or> (\<exists>t. s = t @ [CHR 0x0A] \<and> identifier_grammar t)"
proof (cases s)
  case Nil
  then show ?thesis
    by (simp add: IDENTIFIER_REGEX_match_unfold identifier_grammar_def)
next
  case (Cons c cs)
  show ?thesis
  proof
    assume m: "IDENTIFIER_REGEX_match s"
    show "identifier_grammar s \<or> (\<exists>t. s = t @ [CHR 0x0A] \<and> identifier_grammar t)"
    proof (cases "list_all ident_rest cs")
      case True
      with m Cons show ?thesis
        by (simp add: IDENTIFIER_REGEX_match_unfold identifier_grammar_def)
    next
      case False
      with m Cons have c: "ident_first c" and ne: "cs \<noteq> []"
        and l: "last cs = CHR 0x0A" and b: "list_all ident_rest (butlast cs)"
        by (auto simp: IDENTIFIER_REGEX_match_unfold)
      from ne l have "cs = butlast cs @ [CHR 0x0A]"
        by (metis append_butlast_last_id)
      then have "s = (c # butlast cs) @ [CHR 0x0A]"
        using Cons by simp
      moreover have "identifier_grammar (c # butlast cs)"
        using c b by (simp add: identifier_grammar_def)
      ultimately show ?thesis by blast
    qed
  next
    assume "identifier_grammar s \<or> (\<exists>t. s = t @ [CHR 0x0A] \<and> identifier_grammar t)"
    then show "IDENTIFIER_REGEX_match s"
    proof
      assume "identifier_grammar s"
      then show ?thesis by (rule grammar_imp_match)
    next
      assume "\<exists>t. s = t @ [CHR 0x0A] \<and> identifier_grammar t"
      then obtain t where s: "s = t @ [CHR 0x0A]" and g: "identifier_grammar t"
        by blast
      from g obtain d ds where t: "t = d # ds" and d: "ident_first d"
        and ds: "list_all ident_rest ds"
        by (auto simp: identifier_grammar_def split: list.splits)
      from s t Cons have "c = d" and "cs = ds @ [CHR 0x0A]" by simp_all
      with d ds Cons show ?thesis
        by (simp add: IDENTIFIER_REGEX_match_unfold)
    qed
  qed
qed

lemma check_identifier_leading_digit:
  "c \<in> set ''0123456789'' \<Longrightarrow> check_identifier (c # cs) = Inl (InvalidIdentifier (c # cs))"
  by (auto simp: check_identifier_def IDENTIFIER_REGEX_match_unfold ident_first_def in_range_def)

lemma ident_first_rest: "ident_first c \<Longrightarrow> ident_rest c"
  by (auto simp: ident_first_def ident_rest_def)

lemma grammar_all_rest: "identifier_grammar s \<Longrightarrow> list_all ident_rest s"
  by (auto simp: identifier_grammar_def ident_first_rest split: list.splits)

text \<open>
  A character outside the second class makes the check fail wherever it stands, unless
  it is a newline: blanks, tabs, quotes and semicolons are rejected.
\<close>

lemma check_identifier_bad_char:
  assumes "c \<in> set s" and "\<not> ident_rest c" and "c \<noteq> CHR 0x0A"
  shows "check_identifier s = Inl (InvalidIdentifier s)"
proof -
  have "\<not> IDENTIFIER_REGEX_match s"
  proof
    assume "IDENTIFIER_REGEX_match s"
    then consider "identifier_grammar s"
      | t where "s = t @ [CHR 0x0A]" "identifier_grammar t"
      by (auto simp: match_iff_grammar_or_newline)
    then show False
    proof cases
      case 1
      then have "list_all ident_rest s" by (rule grammar_all_rest)
      with assms show False by (auto simp: list_all_iff)
    next
      case 2
      then have "list_all ident_rest t" by (simp add: grammar_all_rest)
      with 2 assms show False by (auto simp: list_all_iff)
    qed
  qed
  then show ?thesis by (simp add: check_identifier_def)
qed

lemma sql_metacharacters_not_ident:
  "c \<in> set [CHR '' '', CHR 0x09, CHR 0x27, CHR 0x22, CHR '';''] \<Longrightarrow>
   \<not> ident_rest c \<and> c \<noteq> CHR 0x0A"
  by (auto simp: ident_rest_def in_range_def)

text \<open>
  C4.  The claim says that \<^verbatim>\<open>check_identifier\<close> fails on every string that contains
  whitespace.  The string \<^verbatim>\<open>"a\n"\<close> contains a newline and is not in the identifier
  grammar, yet \<^verbatim>\<open>check_identifier\<close> returns it: Python's \<^verbatim>\<open>$\<close> also matches just before
  a final newline.
\<close>

theorem check_identifier_accepts_trailing_newline:
  "check_identifier [CHR ''a'', CHR 0x0A] = Inr [CHR ''a'', CHR 0x0A] \<and>
   \<not> identifier_grammar [CHR ''a'', CHR 0x0A]"
  by (simp add: check_identifier_def IDENTIFIER_REGEX_match_def IDENTIFIER_REGEX_def
      identifier_grammar_def ident_first_def ident_rest_def in_range_def)

section \<open>Properties of \<^verbatim>\<open>where_clause\<close>\<close>

text \<open>
  The formatters of the module validate before they quote, unless the caller switches
  the check off.
\<close>

lemma format_table_checks:
  "\<not> IDENTIFIER_REGEX_match table \<Longrightarrow>
   format_table table schema True = Inl (InvalidIdentifier table)"
  by (simp add: format_table_def check_identifier_def Let_def)

lemma format_column_checks:
  "\<not> IDENTIFIER_REGEX_match col \<Longrightarrow>
   format_column col True table schema = Inl (InvalidIdentifier col)"
  by (simp add: format_column_def check_identifier_def)

text \<open>
  C1.  The claim says that a field name that is not a valid identifier makes
  \<^verbatim>\<open>where_clause\<close> fail.  \<^verbatim>\<open>where_clause\<close> never calls \<^verbatim>\<open>check_identifier\<close>: the field
  \<^verbatim>\<open>a b\<close>, which \<^verbatim>\<open>check_identifier\<close> rejects and \<^verbatim>\<open>format_column\<close> refuses to quote, is
  put between the quotes of the returned fragment.
\<close>

theorem where_clause_unchecked_field:
  \<open>where_clause (PDict [(''a b'', PInt 1)]) [] = (Inr ''"a b" = $1'', [PInt 1]) \<and>
   check_identifier ''a b'' = Inl (InvalidIdentifier ''a b'') \<and>
   format_column ''a b'' True None None = Inl (InvalidIdentifier ''a b'')\<close>
  by code_simp



lemma where_clause_PDict:
  "where_clause (PDict kv) args =
     (let ands = dict_get kv ''.and'';
          ors = dict_get kv ''.or'';
          nots = dict_get kv ''.not''
      in
        if truthy ands then
          (case iterate ands of
             Inl e \<Rightarrow> (Inl e, args)
           | Inr xs \<Rightarrow>
               (case where_clause_list xs args of
                  (Inl e, args) \<Rightarrow> (Inl e, args)
                | (Inr cs, args) \<Rightarrow> (Inr (join '' AND '' cs), args)))
        else if truthy ors then
          (case iterate ors of
             Inl e \<Rightarrow> (Inl e, args)
           | Inr xs \<Rightarrow>
               (case where_clause_list xs args of
                  (Inl e, args) \<Rightarrow> (Inl e, args)
                | (Inr cs, args) \<Rightarrow> (Inr (join '' OR '' cs), args)))
        else if truthy nots then
          (case where_clause nots args of
             (Inl e, args) \<Rightarrow> (Inl e, args)
           | (Inr c, args) \<Rightarrow> (Inr (''NOT ('' @ c @ '')''), args))
        else where_fields kv args [])"
  by (simp add: where_clause.simps)



text \<open>A value that is not a dictionary stands for \<^verbatim>\<open>{'equals': value}\<close>.\<close>

lemma where_field_implicit_equals:
  "(\<And>ov. v \<noteq> PDict ov) \<Longrightarrow>
   where_field f v args = where_field f (PDict [(''equals'', v)]) args"
  by (cases v) (auto simp: where_field_def)

lemma bind_value_appends: "\<exists>ys. snd (bind_value v args) = args @ ys"
  by (cases v) (simp_all add: bind_value_def Let_def)

lemma where_operator_appends: "\<exists>ys. snd (where_operator ctx op v args) = args @ ys"
  using bind_value_appends
  by (auto simp: where_operator_def Let_def split: option.splits sum.splits)

lemma where_operators_appends:
  "\<exists>ys. snd (where_operators ctx ov args clause) = args @ ys"
proof (induction ov arbitrary: ctx args clause)
  case Nil
  then show ?case by simp
next
  case (Cons a ov)
  obtain operator v where a: "a = (operator, v)" by (cases a)
  obtain r args1 where r: "where_operator ctx operator v args = (r, args1)"
    by (cases "where_operator ctx operator v args")
  from where_operator_appends[of ctx operator v args] r
  obtain ys where ys: "args1 = args @ ys" by auto
  show ?case
  proof (cases r)
    case (Inl e)
    with a r ys show ?thesis by simp
  next
    case (Inr p)
    obtain c ctx1 where p: "p = (c, ctx1)" by (cases p)
    from Cons.IH[of ctx1 args1 "clause @ [c]"]
    obtain zs where "snd (where_operators ctx1 ov args1 (clause @ [c])) = args1 @ zs" by blast
    with a r ys Inr p show ?thesis by simp
  qed
qed

lemma where_field_appends: "\<exists>ys. snd (where_field f ov args) = args @ ys"
proof -
  have *: "\<exists>ys. snd (case where_operators ctx l args [] of
             (Inl e, args) \<Rightarrow> (Inl e, args)
           | (Inr clause, args) \<Rightarrow>
               if length clause > 1 then (Inr (join '' AND '' (map parens clause)), args)
               else (case clause of
                       [] \<Rightarrow> (Inl IndexError, args)
                     | c # _ \<Rightarrow> (Inr c, args))) = args @ ys" for ctx l
    using where_operators_appends[of ctx l args "[]"]
    by (auto split: prod.splits sum.splits list.splits)
  show ?thesis
    unfolding where_field_def Let_def
    by (cases ov) (simp_all add: * del: where_operators.simps)
qed

lemma where_fields_appends: "\<exists>ys. snd (where_fields kv args clauses) = args @ ys"
proof (induction kv arbitrary: args clauses)
  case Nil
  then show ?case by (simp add: Let_def)
next
  case (Cons a kv)
  obtain f ov where a: "a = (f, ov)" by (cases a)
  obtain r args1 where r: "where_field f ov args = (r, args1)"
    by (cases "where_field f ov args")
  from where_field_appends[of f ov args] r
  obtain ys where ys: "args1 = args @ ys" by auto
  show ?case
  proof (cases r)
    case (Inl e)
    with a r ys show ?thesis by simp
  next
    case (Inr c)
    from Cons.IH[of args1 "clauses @ [c]"]
    obtain zs where "snd (where_fields kv args1 (clauses @ [c])) = args1 @ zs" by blast
    with a r ys Inr show ?thesis by simp
  qed
qed

lemma where_clause_appends_both:
  "(\<exists>ys. snd (where_clause w args) = args @ ys)"
  "(\<exists>ys. snd (where_clause_list ws args) = args @ ys)"
proof (induction w args and ws args rule: where_clause_where_clause_list.induct)
  case (1 w args)
  show ?case
  proof (cases w)
    case (PDict kv)
    let ?ands = "dict_get kv ''.and''" and ?ors = "dict_get kv ''.or''" and ?nots = "dict_get kv ''.not''"
    show ?thesis
    proof (cases "truthy ?ands")
      case True
      show ?thesis
      proof (cases "iterate ?ands")
        case (Inl e)
        with PDict True show ?thesis by (simp add: where_clause.simps)
      next
        case (Inr xs)
        from "1.IH"(1)[OF PDict refl refl refl True Inr]
        obtain ys where "snd (where_clause_list xs args) = args @ ys" by blast
        with PDict True Inr show ?thesis
          by (auto simp: where_clause.simps split: prod.splits sum.splits)
      qed
    next
      case na: False
      show ?thesis
      proof (cases "truthy ?ors")
        case True
        show ?thesis
        proof (cases "iterate ?ors")
          case (Inl e)
          with PDict na True show ?thesis by (simp add: where_clause.simps)
        next
          case (Inr xs)
          from "1.IH"(2)[OF PDict refl refl refl na True Inr]
          obtain ys where "snd (where_clause_list xs args) = args @ ys" by blast
          with PDict na True Inr show ?thesis
            by (auto simp: where_clause.simps split: prod.splits sum.splits)
        qed
      next
        case no: False
        show ?thesis
        proof (cases "truthy ?nots")
          case True
          from "1.IH"(3)[OF PDict refl refl refl na no True]
          obtain ys where "snd (where_clause ?nots args) = args @ ys" by blast
          with PDict na no True show ?thesis
            by (auto simp: where_clause.simps split: prod.splits sum.splits)
        next
          case False
          with PDict na no where_fields_appends[of kv args "[]"] show ?thesis
            by (simp add: where_clause.simps)
        qed
      qed
    qed
  qed (simp_all add: where_clause.simps)
next
  case (2 args)
  then show ?case by simp
next
  case (3 a as args)
  obtain r args1 where r: "where_clause a args = (r, args1)"
    by (cases "where_clause a args")
  from "3.IH"(1) r obtain ys where ys: "args1 = args @ ys" by auto
  show ?case
  proof (cases r)
    case (Inl e)
    with r ys show ?thesis by simp
  next
    case (Inr c)
    from "3.IH"(2)[OF r[symmetric] Inr] 
    obtain zs where "snd (where_clause_list as args1) = args1 @ zs" by blast
    with r ys Inr show ?thesis by (auto split: prod.splits sum.splits)
  qed
qed

text \<open>
  C10.  \<^verbatim>\<open>where_clause\<close> changes \<open>args\<close> only by appending: for every filter document (in
  fact for every value passed as the document) and every list \<open>args\<close>, whether the call
  returns or raises, the list afterwards is the original list followed by the newly
  bound values.
\<close>

theorem where_clause_appends_only:
  "\<exists>ys. snd (where_clause w args) = args @ ys"
  by (rule where_clause_appends_both(1))

text \<open>
  C9, as the claim states it, fails: a document that has the combinator key \<^verbatim>\<open>.and\<close>
  next to the plain field \<^verbatim>\<open>b\<close> is compiled, not rejected; the field \<^verbatim>\<open>b\<close> is dropped.
\<close>

theorem where_clause_combinator_with_field_compiles:
  \<open>where_clause (PDict [(''.and'', PList [PDict [(''a'', PInt 1)]]), (''b'', PInt 2)]) [] =
     (Inr ''("a" = $1)'', [PInt 1])\<close>
  by code_simp

text \<open>
  C9, amended.  When a combinator key has a truthy value, \<^verbatim>\<open>where_clause\<close> compiles the
  first such combinator in the order \<^verbatim>\<open>.and\<close>, \<^verbatim>\<open>.or\<close>, \<^verbatim>\<open>.not\<close> and ignores every other
  key of that level, plain field keys included: outcome and \<open>args\<close> are those of the
  document reduced to that one key.
\<close>

theorem where_clause_combinator_ignores_siblings:
  "(truthy (dict_get kv ''.and'') \<longrightarrow>
      where_clause (PDict kv) args =
      where_clause (PDict [(''.and'', dict_get kv ''.and'')]) args) \<and>
   (\<not> truthy (dict_get kv ''.and'') \<and> truthy (dict_get kv ''.or'') \<longrightarrow>
      where_clause (PDict kv) args =
      where_clause (PDict [(''.or'', dict_get kv ''.or'')]) args) \<and>
   (\<not> truthy (dict_get kv ''.and'') \<and> \<not> truthy (dict_get kv ''.or'') \<and>
    truthy (dict_get kv ''.not'') \<longrightarrow>
      where_clause (PDict kv) args =
      where_clause (PDict [(''.not'', dict_get kv ''.not'')]) args)"
  by (simp add: where_clause_PDict dict_get_def)

text \<open>The amended C9 at three documents, one for each combinator.\<close>

theorem where_clause_combinator_ignores_siblings_witness:
  "where_clause (PDict [(''.and'', PList [PDict [(''a'', PInt 1)]]), (''b'', PInt 2)]) [] =
     where_clause (PDict [(''.and'', PList [PDict [(''a'', PInt 1)]])]) [] \<and>
   where_clause (PDict [(''b'', PInt 2), (''.or'', PList [PDict [(''a'', PInt 1)]])]) [] =
     where_clause (PDict [(''.or'', PList [PDict [(''a'', PInt 1)]])]) [] \<and>
   where_clause (PDict [(''.not'', PDict [(''a'', PInt 1)]), (''b'', PInt 2)]) [] =
     where_clause (PDict [(''.not'', PDict [(''a'', PInt 1)])]) []"
  using
    where_clause_combinator_ignores_siblings
      [of "[(''.and'', PList [PDict [(''a'', PInt 1)]]), (''b'', PInt 2)]" "[]"]
    where_clause_combinator_ignores_siblings
      [of "[(''b'', PInt 2), (''.or'', PList [PDict [(''a'', PInt 1)]])]" "[]"]
    where_clause_combinator_ignores_siblings
      [of "[(''.not'', PDict [(''a'', PInt 1)]), (''b'', PInt 2)]" "[]"]
  by (simp add: dict_get_def)


















text \<open>
  The placeholders keep counting through a document: two operators on one field and a
  second field, with one parameter bound before the call.
\<close>

lemma where_clause_numbering_example:
  \<open>where_clause
     (PDict [(''a'', PDict [(''<'', PInt 1), (''>'', PInt 0)]), (''b'', PNone)]) [PInt 3] =
   (Inr ''(("a" < $2) AND ("a" > $3)) AND ("b" = $4)'', [PInt 3, PInt 1, PInt 0, PNone])\<close>
  by code_simp

section \<open>Properties of the stores\<close>

lemma gather_all_Inr:
  "list_all (\<lambda>r. \<not> isl r) rs \<Longrightarrow> gather rs = Inr (map projr rs)"
  by (induction rs) (auto split: sum.splits)

lemma sum_list_map_concat:
  fixes f :: "'a \<Rightarrow> int"
  shows "sum_list (map f (concat xss)) = sum_list (map (\<lambda>xs. sum_list (map f xs)) xss)"
  by (induction xss) simp_all

lemma get_count_leaves:
  "list_all (\<lambda>r. \<not> isl r) (leaf_counts t) \<Longrightarrow>
   get_count t = Inr (sum_list (map projr (leaf_counts t)))"
proof (induction t)
  case (Leaf n c d s)
  then show ?case by (cases c) simp_all
next
  case (ParentStore n cs)
  have each: "get_count c = Inr (sum_list (map projr (leaf_counts c)))" if "c \<in> set cs" for c
    using ParentStore that by (auto simp: list_all_iff)
  then have ok: "list_all (\<lambda>r. \<not> isl r) (map get_count cs)"
    by (simp add: list_all_iff)
  have "map projr (map get_count cs) = map (\<lambda>c. sum_list (map projr (leaf_counts c))) cs"
    using each by simp
  then have "sum_list (map projr (map get_count cs)) =
      sum_list (map (\<lambda>c. sum_list (map projr (leaf_counts c))) cs)"
    by (simp only:)
  also have "\<dots> = sum_list (map projr (concat (map leaf_counts cs)))"
    by (simp add: sum_list_map_concat comp_def)
  finally have "sum_list (map projr (map get_count cs)) =
      sum_list (map projr (concat (map leaf_counts cs)))" .
  with gather_all_Inr[OF ok] show ?case by simp
qed

lemma get_count_children:
  assumes "list_all (\<lambda>c. \<not> isl (get_count c)) cs"
  shows "get_count (ParentStore n cs) = Inr (sum_list (map (\<lambda>c. projr (get_count c)) cs))"
proof -
  from assms have "list_all (\<lambda>r. \<not> isl r) (map get_count cs)"
    by (simp add: list_all_iff)
  from gather_all_Inr[OF this] show ?thesis by (simp add: comp_def)
qed

lemma sum_list_mset_cong:
  fixes f :: "'a \<Rightarrow> int"
  shows "mset xs = mset ys \<Longrightarrow> sum_list (map f xs) = sum_list (map f ys)"
  by (metis mset_map sum_mset_sum_list)

text \<open>
  C8.  When every leaf below a composite answers its count, \<^verbatim>\<open>get_count\<close> of the composite
  is the sum of its children's counts, which is the sum of all leaf counts below it, and
  the result is the same for every order of the children (the coroutines are awaited
  in list order, so the order of the list is the only order there is).
\<close>

theorem get_count_sum:
  assumes leaves: "list_all (\<lambda>r. \<not> isl r) (leaf_counts (ParentStore n cs))"
    and perm: "mset cs' = mset cs"
  shows "get_count (ParentStore n cs') = Inr (sum_list (map (\<lambda>c. projr (get_count c)) cs)) \<and>
         list_all (\<lambda>c. \<not> isl (get_count c)) cs \<and>
         sum_list (map (\<lambda>c. projr (get_count c)) cs) =
           sum_list (map projr (leaf_counts (ParentStore n cs)))"
proof -
  have child: "get_count c = Inr (sum_list (map projr (leaf_counts c)))" if "c \<in> set cs" for c
    using leaves that by (intro get_count_leaves) (auto simp: list_all_iff)
  then have ok: "list_all (\<lambda>c. \<not> isl (get_count c)) cs"
    by (simp add: list_all_iff)
  from perm have "set cs' = set cs" by (metis set_mset_mset)
  with ok have ok': "list_all (\<lambda>c. \<not> isl (get_count c)) cs'"
    by (simp add: list_all_iff)
  have "get_count (ParentStore n cs') = Inr (sum_list (map (\<lambda>c. projr (get_count c)) cs'))"
    by (rule get_count_children[OF ok'])
  also have "sum_list (map (\<lambda>c. projr (get_count c)) cs') =
      sum_list (map (\<lambda>c. projr (get_count c)) cs)"
    by (rule sum_list_mset_cong[OF perm])
  finally have first: "get_count (ParentStore n cs') =
      Inr (sum_list (map (\<lambda>c. projr (get_count c)) cs))" .
  have "get_count (ParentStore n cs) = Inr (sum_list (map projr (leaf_counts (ParentStore n cs))))"
    by (rule get_count_leaves[OF leaves])
  with get_count_children[OF ok, of n]
  have "sum_list (map (\<lambda>c. projr (get_count c)) cs) =
      sum_list (map projr (leaf_counts (ParentStore n cs)))"
    by simp
  with first ok show ?thesis by simp
qed

text \<open>C8 at a database of one table and one namespace of two tables, children permuted.\<close>

theorem get_count_sum_witness:
  "get_count (ParentStore ''db''
      [Leaf ''t2'' (Inr 5) (Inr ''x'') (Inr ''y''),
       ParentStore ''ns'' [Leaf ''t1'' (Inr 2) (Inr ''x'') (Inr ''y''),
                           Leaf ''t0'' (Inr 4) (Inr ''x'') (Inr ''y'')]])
   = Inr 11"
  using get_count_sum[of "''db''" "[ParentStore ''ns'' [Leaf ''t1'' (Inr 2) (Inr ''x'') (Inr ''y''),
                           Leaf ''t0'' (Inr 4) (Inr ''x'') (Inr ''y'')],
                         Leaf ''t2'' (Inr 5) (Inr ''x'') (Inr ''y'')]"
              "[Leaf ''t2'' (Inr 5) (Inr ''x'') (Inr ''y''),
       ParentStore ''ns'' [Leaf ''t1'' (Inr 2) (Inr ''x'') (Inr ''y''),
                           Leaf ''t0'' (Inr 4) (Inr ''x'') (Inr ''y'')]]"]
  by simp

lemma get_data_hash_children:
  assumes "list_all (\<lambda>c. \<not> isl (get_data_hash md5 c)) cs"
  shows "get_data_hash md5 (ParentStore n cs) = md5 (join '','' (replicate (length cs) ''-''))"
proof -
  have "gather (map (\<lambda>c. case get_data_hash md5 c of Inl e \<Rightarrow> Inl e
                          | Inr h \<Rightarrow> Inr (dash_format h (store_name c))) cs)
      = Inr (replicate (length cs) ''-'')"
    using assms by (induction cs) (auto simp: dash_format_def split: sum.splits)
  then show ?thesis by simp
qed

lemma get_schema_hash_children:
  assumes "list_all (\<lambda>c. \<not> isl (get_schema_hash md5 c)) cs"
  shows "get_schema_hash md5 (ParentStore n cs) = md5 (join '','' (replicate (length cs) ''-''))"
proof -
  have "gather (map (\<lambda>c. case get_schema_hash md5 c of Inl e \<Rightarrow> Inl e
                          | Inr h \<Rightarrow> Inr (dash_format h (store_name c))) cs)
      = Inr (replicate (length cs) ''-'')"
    using assms by (induction cs) (auto simp: dash_format_def split: sum.splits)
  then show ?thesis by simp
qed

text \<open>
  With the \<^verbatim>\<open>md5\<close> of Python 3, which raises \<^verbatim>\<open>TypeError\<close> for every string, no composite
  returns a hash at all.
\<close>

lemma get_data_hash_python3:
  "\<exists>e. get_data_hash (\<lambda>s. Inl TypeError) (ParentStore n cs) = Inl e"
  by (simp split: sum.splits)

text \<open>
  C2.  The claim says that changing a child's hash or name changes the digest.  The
  string that \<^verbatim>\<open>get_data_hash\<close> and \<^verbatim>\<open>get_schema_hash\<close> hand to \<^verbatim>\<open>md5\<close> is made of
  \<^verbatim>\<open>"-".format(hash, name)\<close>, which is \<^verbatim>\<open>-\<close> for every hash and name: two composites with
  one child each, of different names and different hashes, get the same digest
  \<^verbatim>\<open>md5("-")\<close>, whatever function \<^verbatim>\<open>md5\<close> is.
\<close>

theorem get_data_hash_ignores_children:
  "get_data_hash md5 (ParentStore p [Leaf ''a'' c (Inr h1) s]) = md5 ''-'' \<and>
   get_data_hash md5 (ParentStore p [Leaf ''b'' c' (Inr h2) s']) = md5 ''-'' \<and>
   get_schema_hash md5 (ParentStore p [Leaf ''a'' c d (Inr h1)]) = md5 ''-'' \<and>
   get_schema_hash md5 (ParentStore p [Leaf ''b'' c' d' (Inr h2)]) = md5 ''-''"
  by (simp add: dash_format_def)

section \<open>Properties of the primary-key resolution\<close>

text \<open>
  \<^verbatim>\<open>get_pks\<close> follows the order of the specification: the columns of the first index
  flagged primary, else the columns of the first constraint of type \<^verbatim>\<open>p\<close>, else the full
  column list.
\<close>

lemma get_pks_primary_index:
  "find idx_primary indexes = Some i \<Longrightarrow> idx_columns i \<noteq> [] \<Longrightarrow>
   get_pks indexes constraints columns = idx_columns i"
  by (auto simp: get_pks_def get_first_def truthy_pks_def Let_def)

lemma get_pks_constraint:
  "find idx_primary indexes = None \<Longrightarrow>
   find (\<lambda>item. con_type item = ''p'') constraints = Some c \<Longrightarrow> con_columns c \<noteq> [] \<Longrightarrow>
   get_pks indexes constraints columns = con_columns c"
  by (auto simp: get_pks_def get_first_def truthy_pks_def Let_def)

lemma get_pks_fallback:
  "find idx_primary indexes = None \<Longrightarrow>
   find (\<lambda>item. con_type item = ''p'') constraints = None \<Longrightarrow>
   get_pks indexes constraints columns = columns"
  by (auto simp: get_pks_def get_first_def truthy_pks_def Let_def)

lemma Table_init_no_constraint:
  assumes "\<forall>c \<in> set (or_empty constraints). con_type c \<noteq> ''p''"
  shows "\<exists>t. Table_init name namespace attributes constraints indexes verbose tag = Inr t \<and>
             tbl_pks t = None"
proof -
  from assms have "find (\<lambda>c. con_type c = ''p'') (sort_key con_name (or_empty constraints)) = None"
    by (simp add: find_None_iff)
  then show ?thesis by (simp add: Table_init_def Let_def)
qed

text \<open>
  A constraint of type \<^verbatim>\<open>p\<close> that is the only one and has no key \<^verbatim>\<open>index_name\<close> makes the
  constructor raise.
\<close>

lemma Table_init_KeyError:
  "con_type c = ''p'' \<Longrightarrow> con_index_name c = None \<Longrightarrow>
   Table_init name namespace attributes (Some [c]) indexes verbose tag = Inl KeyError"
  by (simp add: Table_init_def or_empty_def Let_def)

text \<open>
  C3.  The claim says that a table constructed with no primary index and no constraint
  of type \<^verbatim>\<open>p\<close> resolves its primary key to the full column list.  \<^verbatim>\<open>Table.__init__\<close> does
  not call \<^verbatim>\<open>get_pks\<close> and has no fallback: with no constraint, the constructor returns a
  table whose \<^verbatim>\<open>pks\<close> is \<^verbatim>\<open>None\<close>, whatever the attributes are, and \<^verbatim>\<open>get_data_hash_query\<close> raises \<^verbatim>\<open>TypeError\<close>; \<^verbatim>\<open>get_pks\<close> on the
  same input returns the column list.
\<close>

theorem Table_init_no_primary_key:
  "\<not> isl (Table_init name namespace attributes (Some []) (Some []) verbose tag) \<and>
   tbl_pks (projr (Table_init name namespace attributes (Some []) (Some []) verbose tag))
     = None \<and>
   get_data_hash_query
     (projr (Table_init name namespace attributes (Some []) (Some []) verbose tag))
     = Inl TypeError \<and>
   get_pks [] [] columns = columns"
  by (simp add: Table_init_def or_empty_def get_data_hash_query_def get_pks_def truthy_pks_def)


end
